theory Spec2Isabelle
  imports Main
begin

section \<open>The live broadcast coordinator of src/server.js\<close>

text \<open>
  The model covers lines 118--214 of \<^verbatim>\<open>src/server.js\<close>: the process-wide
  \<^verbatim>\<open>sessions\<close> map, the \<^verbatim>\<open>join-broadcast\<close> listener registered for every
  connection, and the \<^verbatim>\<open>GET /api/live-sessions\<close> handler. The two files under
  \<^verbatim>\<open>src/unnamed\<close> are variants of the same server start-up without any session
  logic.
\<close>

subsection \<open>JavaScript values and maps\<close>

text \<open>
  The arguments of a \<^verbatim>\<open>join-broadcast\<close> message are untyped. They are modelled as the
  scalar JSON values, with the truthiness test that \<^verbatim>\<open>!roomId\<close> applies.
\<close>

datatype jsval = JUndefined | JNull | JBool bool | JNum int | JStr string

fun truthy :: "jsval \<Rightarrow> bool" where
  "truthy JUndefined = False"
| "truthy JNull = False"
| "truthy (JBool b) = b"
| "truthy (JNum n) = (n \<noteq> 0)"
| "truthy (JStr s) = (s \<noteq> [])"

text \<open>
  A JavaScript \<^verbatim>\<open>Map\<close> keeps its entries in insertion order: \<^verbatim>\<open>set\<close> on a key that is
  present replaces the value where it stands, \<^verbatim>\<open>set\<close> on a new key appends the entry.
  \<^verbatim>\<open>size\<close> is the number of entries.
\<close>

type_synonym ('k, 'v) js_map = "('k \<times> 'v) list"

fun map_get :: "('k, 'v) js_map \<Rightarrow> 'k \<Rightarrow> 'v option" where
  "map_get [] k = None"
| "map_get ((k', v) # m) k = (if k' = k then Some v else map_get m k)"

fun map_set :: "'k \<Rightarrow> 'v \<Rightarrow> ('k, 'v) js_map \<Rightarrow> ('k, 'v) js_map" where
  "map_set k v [] = [(k, v)]"
| "map_set k v ((k', v') # m) = (if k' = k then (k, v) # m else (k', v') # map_set k v m)"

definition map_size :: "('k, 'v) js_map \<Rightarrow> nat" where
  "map_size m = length m"

subsection \<open>Session state (server.js:135--142, 157, 166--170)\<close>

type_synonym socket_id = string

text \<open>A \<^verbatim>\<open>Date\<close> is its number of milliseconds.\<close>

type_synonym date = int

record instructor_rec =
  instr_id :: jsval
  instr_socketId :: socket_id
  instr_active :: bool

record student_rec =
  stu_socketId :: socket_id
  stu_active :: bool
  stu_joinedAt :: date

record session =
  instructor :: "instructor_rec option"
  students :: "(jsval, student_rec) js_map"
  messages :: "jsval list"
  isLive :: bool
  startTime :: "date option"
  createdAt :: date

text \<open>
  The server state: the \<^verbatim>\<open>sessions\<close> map of line 119 and the room membership that
  \<^verbatim>\<open>socket.join\<close> and \<^verbatim>\<open>socket.leave\<close> maintain, as pairs of room and socket.
\<close>

record server =
  sessions :: "(jsval, session) js_map"
  rooms :: "(jsval \<times> socket_id) set"

definition initial :: server where
  "initial = \<lparr>sessions = [], rooms = {}\<rparr>"

subsection \<open>Outbound events\<close>

datatype payload =
    ErrorMsg string
  | BroadcastStarted jsval "date option"
  | StudentJoined jsval jsval nat
  | SessionInfo bool "date option" "jsval list" nat bool
  | ParticipantsUpdated nat

text \<open>
  \<^verbatim>\<open>socket.emit\<close> addresses the socket of the request, \<^verbatim>\<open>io.to(r).emit\<close> addresses
  the room \<^verbatim>\<open>r\<close>.
\<close>

datatype target = ToSocket socket_id | ToRoom jsval

datatype emission = Emit target payload

fun is_room_wide :: "emission \<Rightarrow> bool" where
  "is_room_wide (Emit (ToRoom r) p) = True"
| "is_room_wide (Emit (ToSocket s) p) = False"

fun is_error :: "emission \<Rightarrow> bool" where
  "is_error (Emit t (ErrorMsg m)) = True"
| "is_error (Emit t p) = False"

fun is_participants_updated :: "emission \<Rightarrow> bool" where
  "is_participants_updated (Emit t (ParticipantsUpdated n)) = True"
| "is_participants_updated (Emit t p) = False"

fun is_student_joined :: "emission \<Rightarrow> bool" where
  "is_student_joined (Emit t (StudentJoined r u n)) = True"
| "is_student_joined (Emit t p) = False"

fun is_session_info :: "emission \<Rightarrow> bool" where
  "is_session_info (Emit t (SessionInfo l st ms n a)) = True"
| "is_session_info (Emit t p) = False"

subsection \<open>The join-broadcast listener (server.js:125--192)\<close>

text \<open>The object literal of lines 135--142; the argument is the value of \<^verbatim>\<open>new Date()\<close>.\<close>

definition new_session :: "date \<Rightarrow> session" where
  "new_session tc =
     \<lparr>instructor = None, students = [], messages = [], isLive = False,
      startTime = None, createdAt = tc\<rparr>"

text \<open>Lines 132--144: look the room up and register a fresh session when there is none.\<close>

definition get_or_create ::
  "jsval \<Rightarrow> date \<Rightarrow> (jsval, session) js_map \<Rightarrow> session \<times> (jsval, session) js_map" where
  "get_or_create roomId tc ss =
     (case map_get ss roomId of
        Some s \<Rightarrow> (s, ss)
      | None \<Rightarrow> (new_session tc, map_set roomId (new_session tc) ss))"

text \<open>The object that the variable \<^verbatim>\<open>session\<close> holds from line 145 on.\<close>

definition session_at :: "jsval \<Rightarrow> date \<Rightarrow> server \<Rightarrow> session" where
  "session_at roomId tc srv = fst (get_or_create roomId tc (sessions srv))"

text \<open>\<^verbatim>\<open>session.instructor && session.instructor.active\<close>, also \<^verbatim>\<open>session.instructor?.active\<close>.\<close>

definition instructor_active :: "session \<Rightarrow> bool" where
  "instructor_active s = (case instructor s of None \<Rightarrow> False | Some i \<Rightarrow> instr_active i)"

text \<open>The condition of lines 147--151.\<close>

definition instructor_conflict :: "session \<Rightarrow> socket_id \<Rightarrow> bool" where
  "instructor_conflict s sid =
     (case instructor s of
        None \<Rightarrow> False
      | Some i \<Rightarrow> instr_active i \<and> instr_socketId i \<noteq> sid)"

text \<open>The count of line 190.\<close>

definition participants_count :: "session \<Rightarrow> nat" where
  "participants_count s = map_size (students s) + (if instructor_active s then 1 else 0)"

text \<open>
  Lines 157--159, the assignments of the instructor branch. A \<^verbatim>\<open>Date\<close> object is
  truthy whatever its value, so \<^verbatim>\<open>session.startTime || new Date()\<close> keeps every
  start time that is not \<^verbatim>\<open>null\<close>.
\<close>

definition admit_instructor :: "jsval \<Rightarrow> socket_id \<Rightarrow> date \<Rightarrow> session \<Rightarrow> session" where
  "admit_instructor userId sid tn s =
     s\<lparr>instructor := Some \<lparr>instr_id = userId, instr_socketId = sid, instr_active = True\<rparr>,
       isLive := True,
       startTime := (case startTime s of Some t \<Rightarrow> Some t | None \<Rightarrow> Some tn)\<rparr>"

text \<open>Lines 166--170, the \<^verbatim>\<open>students.set\<close> of the student branch.\<close>

definition admit_student :: "jsval \<Rightarrow> socket_id \<Rightarrow> date \<Rightarrow> session \<Rightarrow> session" where
  "admit_student userId sid tn s =
     s\<lparr>students :=
         map_set userId \<lparr>stu_socketId = sid, stu_active = True, stu_joinedAt = tn\<rparr>
           (students s)\<rparr>"

text \<open>
  The listener. \<open>sid\<close> is \<^verbatim>\<open>socket.id\<close>; \<open>tc\<close> is the clock read at line 141 and \<open>tn\<close>
  the clock read at line 159 or 169. The result is the list of events emitted, in order,
  and the state after the listener returns. The session object is shared with the map, so
  every assignment to it is a \<open>map_set\<close> at \<open>roomId\<close>.
\<close>

definition join_broadcast ::
  "socket_id \<Rightarrow> jsval \<Rightarrow> jsval \<Rightarrow> jsval \<Rightarrow> date \<Rightarrow> date \<Rightarrow> server
     \<Rightarrow> emission list \<times> server" where
  "join_broadcast sid roomId userId userType tc tn srv =
     (if \<not> truthy roomId \<or> \<not> truthy userId
          \<or> userType \<notin> set [JStr ''instructor'', JStr ''student'']
      then ([Emit (ToSocket sid) (ErrorMsg ''Invalid join parameters.'')], srv)
      else
        let joined = insert (roomId, sid) (rooms srv);
            (s, ss) = get_or_create roomId tc (sessions srv)
        in
          if userType = JStr ''instructor'' then
            if instructor_conflict s sid then
              ([Emit (ToSocket sid)
                  (ErrorMsg ''Another instructor is already active in this session.'')],
               \<lparr>sessions = ss, rooms = joined - {(roomId, sid)}\<rparr>)
            else
              let s' = admit_instructor userId sid tn s
              in ([Emit (ToRoom roomId) (BroadcastStarted userId (startTime s')),
                   Emit (ToRoom roomId) (ParticipantsUpdated (participants_count s'))],
                  \<lparr>sessions = map_set roomId s' ss, rooms = joined\<rparr>)
          else
            let s' = admit_student userId sid tn s
            in ((case instructor s' of
                   Some i \<Rightarrow>
                     if instr_active i
                     then [Emit (ToRoom (JStr (instr_socketId i)))
                             (StudentJoined roomId userId (map_size (students s')))]
                     else []
                 | None \<Rightarrow> [])
                @ [Emit (ToSocket sid)
                     (SessionInfo (isLive s') (startTime s') (messages s')
                        (map_size (students s')) (instructor_active s')),
                   Emit (ToRoom roomId) (ParticipantsUpdated (participants_count s'))],
                \<lparr>sessions = map_set roomId s' ss, rooms = joined\<rparr>))"

subsection \<open>Connection loss\<close>

text \<open>
  The connection handler (server.js:122--193) registers one listener, for
  \<^verbatim>\<open>join-broadcast\<close>, and none for \<^verbatim>\<open>disconnect\<close>. When a connection is lost no code
  of the program runs: nothing is emitted and \<^verbatim>\<open>sessions\<close> is not touched. The
  transport itself drops the socket from every room.
\<close>

definition disconnect :: "socket_id \<Rightarrow> server \<Rightarrow> emission list \<times> server" where
  "disconnect sid srv = ([], srv\<lparr>rooms := {p \<in> rooms srv. snd p \<noteq> sid}\<rparr>)"

subsection \<open>The live-sessions query (server.js:196--214)\<close>

record live_entry =
  le_id :: jsval
  le_startTime :: "date option"
  le_participants :: nat
  le_instructorId :: jsval

record live_response =
  success :: bool
  resp_sessions :: "live_entry list"

text \<open>The body of the \<^verbatim>\<open>forEach\<close> callback: the entries it pushes for one session.\<close>

fun live_entry_of :: "jsval \<times> session \<Rightarrow> live_entry list" where
  "live_entry_of (roomId, s) =
     (case instructor s of
        None \<Rightarrow> []
      | Some i \<Rightarrow>
          if isLive s \<and> instr_active i
          then [\<lparr>le_id = roomId, le_startTime = startTime s,
                 le_participants = map_size (students s) + (if instr_active i then 1 else 0),
                 le_instructorId = instr_id i\<rparr>]
          else [])"

text \<open>The handler returns its response and the state it leaves behind.\<close>

definition live_sessions :: "server \<Rightarrow> live_response \<times> server" where
  "live_sessions srv =
     (\<lparr>success = True, resp_sessions = concat (map live_entry_of (sessions srv))\<rparr>, srv)"

subsection \<open>Runs of the server\<close>

datatype request =
    JoinBroadcast socket_id jsval jsval jsval date date
  | Disconnect socket_id
  | LiveSessions

fun handle :: "request \<Rightarrow> server \<Rightarrow> server" where
  "handle (JoinBroadcast sid roomId userId userType tc tn) srv =
     snd (join_broadcast sid roomId userId userType tc tn srv)"
| "handle (Disconnect sid) srv = snd (disconnect sid srv)"
| "handle LiveSessions srv = snd (live_sessions srv)"

fun run :: "request list \<Rightarrow> server \<Rightarrow> server" where
  "run [] srv = srv"
| "run (q # qs) srv = run qs (handle q srv)"

subsection \<open>Notions used in the properties\<close>

text \<open>The start time that the server records for a room, if it records any.\<close>

definition startTime_of :: "server \<Rightarrow> jsval \<Rightarrow> date option" where
  "startTime_of srv r =
     (case map_get (sessions srv) r of None \<Rightarrow> None | Some s \<Rightarrow> startTime s)"

text \<open>
  What holds of every session of a server that started with no session: it is live exactly
  when its instructor is active, a session that never had an instructor has no start time,
  and no code appends to \<^verbatim>\<open>messages\<close>.
\<close>

definition session_ok :: "session \<Rightarrow> bool" where
  "session_ok s \<longleftrightarrow>
     isLive s = instructor_active s
     \<and> (instructor s = None \<longrightarrow> startTime s = None)
     \<and> messages s = []"

definition server_ok :: "server \<Rightarrow> bool" where
  "server_ok srv \<longleftrightarrow> (\<forall>p \<in> set (sessions srv). session_ok (snd p))"

text \<open>
  The scenarios of the specification: instructor A opens room r1, then student B joins it.
\<close>

definition scenario1 :: server where
  "scenario1 =
     snd (join_broadcast ''sockA'' (JStr ''r1'') (JStr ''A'') (JStr ''instructor'')
            1000 1001 initial)"

definition scenario2 :: server where
  "scenario2 =
     snd (join_broadcast ''sockB'' (JStr ''r1'') (JStr ''B'') (JStr ''student'')
            2000 2001 scenario1)"

text \<open>
  The two early returns of the listener: the parameter check of lines 126--129 and the
  instructor conflict of lines 147--155. A request that meets neither is admitted.
\<close>

definition rejects :: "socket_id \<Rightarrow> jsval \<Rightarrow> jsval \<Rightarrow> jsval \<Rightarrow> date \<Rightarrow> server \<Rightarrow> bool" where
  "rejects sid roomId userId userType tc srv \<longleftrightarrow>
     \<not> truthy roomId \<or> \<not> truthy userId
     \<or> userType \<notin> set [JStr ''instructor'', JStr ''student'']
     \<or> (userType = JStr ''instructor'' \<and> instructor_conflict (session_at roomId tc srv) sid)"

text \<open>
  The live-sessions contract in the words of the specification: the registered sessions
  with \<open>isLive\<close> and an active instructor, each with \<open>students.size + 1\<close> participants.
\<close>

definition listActive_spec :: "server \<Rightarrow> live_entry list" where
  "listActive_spec srv =
     map (\<lambda>(roomId, s).
            \<lparr>le_id = roomId, le_startTime = startTime s,
             le_participants = map_size (students s) + 1,
             le_instructorId = (case instructor s of Some i \<Rightarrow> instr_id i | None \<Rightarrow> JUndefined)\<rparr>)
       (filter (\<lambda>(roomId, s). isLive s \<and> instructor_active s) (sessions srv))"

section \<open>Properties\<close>

subsection \<open>Maps\<close>

lemma map_get_map_set:
  "map_get (map_set k v m) k' = (if k' = k then Some v else map_get m k')"
  by (induction m) (auto split: if_splits)

lemma length_map_set:
  "length (map_set k v m) = (if map_get m k = None then Suc (length m) else length m)"
  by (induction m) (auto split: if_splits)

lemma set_map_set: "set (map_set k v m) \<subseteq> insert (k, v) (set m)"
  by (induction m) (auto split: if_splits)

lemma map_get_in_set: "map_get m k = Some v \<Longrightarrow> (k, v) \<in> set m"
  by (induction m) (auto split: if_splits)

lemma map_set_map_set: "map_set k v' (map_set k v m) = map_set k v' m"
  by (induction m) (auto split: if_splits)

subsection \<open>The branches of the listener\<close>

lemma session_at_eq:
  "session_at roomId tc srv =
     (case map_get (sessions srv) roomId of Some s \<Rightarrow> s | None \<Rightarrow> new_session tc)"
  by (simp add: session_at_def get_or_create_def split: option.splits)

lemma get_or_create_set:
  "get_or_create roomId tc ss = (s, ss') \<Longrightarrow> map_set roomId s' ss' = map_set roomId s' ss"
  by (auto simp: get_or_create_def map_set_map_set split: option.splits)

lemma no_conflict_new: "\<not> instructor_conflict (new_session tc) sid"
  by (simp add: instructor_conflict_def new_session_def)

lemma jb_invalid:
  assumes "\<not> truthy roomId \<or> \<not> truthy userId
             \<or> userType \<notin> set [JStr ''instructor'', JStr ''student'']"
  shows "join_broadcast sid roomId userId userType tc tn srv =
           ([Emit (ToSocket sid) (ErrorMsg ''Invalid join parameters.'')], srv)"
  using assms by (simp add: join_broadcast_def)

lemma jb_conflict:
  assumes "truthy roomId" "truthy userId"
    and "map_get (sessions srv) roomId = Some s"
    and "instructor_conflict s sid"
  shows "join_broadcast sid roomId userId (JStr ''instructor'') tc tn srv =
           ([Emit (ToSocket sid)
               (ErrorMsg ''Another instructor is already active in this session.'')],
            \<lparr>sessions = sessions srv, rooms = rooms srv - {(roomId, sid)}\<rparr>)"
  using assms by (simp add: join_broadcast_def get_or_create_def)

lemma jb_instructor:
  assumes "truthy roomId" "truthy userId"
    and "\<not> instructor_conflict (session_at roomId tc srv) sid"
    and "s' = admit_instructor userId sid tn (session_at roomId tc srv)"
  shows "join_broadcast sid roomId userId (JStr ''instructor'') tc tn srv =
           ([Emit (ToRoom roomId) (BroadcastStarted userId (startTime s')),
             Emit (ToRoom roomId) (ParticipantsUpdated (participants_count s'))],
            \<lparr>sessions = map_set roomId s' (sessions srv),
             rooms = insert (roomId, sid) (rooms srv)\<rparr>)"
proof -
  obtain s ss where g: "get_or_create roomId tc (sessions srv) = (s, ss)"
    by (cases "get_or_create roomId tc (sessions srv)")
  then have "session_at roomId tc srv = s"
    by (simp add: session_at_def)
  with assms g get_or_create_set [OF g] show ?thesis
    by (simp add: join_broadcast_def Let_def)
qed

lemma jb_student:
  assumes "truthy roomId" "truthy userId"
    and "s' = admit_student userId sid tn (session_at roomId tc srv)"
  shows "join_broadcast sid roomId userId (JStr ''student'') tc tn srv =
           ((case instructor s' of
               Some i \<Rightarrow>
                 if instr_active i
                 then [Emit (ToRoom (JStr (instr_socketId i)))
                         (StudentJoined roomId userId (map_size (students s')))]
                 else []
             | None \<Rightarrow> [])
            @ [Emit (ToSocket sid)
                 (SessionInfo (isLive s') (startTime s') (messages s')
                    (map_size (students s')) (instructor_active s')),
               Emit (ToRoom roomId) (ParticipantsUpdated (participants_count s'))],
            \<lparr>sessions = map_set roomId s' (sessions srv),
             rooms = insert (roomId, sid) (rooms srv)\<rparr>)"
proof -
  obtain s ss where g: "get_or_create roomId tc (sessions srv) = (s, ss)"
    by (cases "get_or_create roomId tc (sessions srv)")
  then have "session_at roomId tc srv = s"
    by (simp add: session_at_def)
  with assms g get_or_create_set [OF g] show ?thesis
    by (simp add: join_broadcast_def Let_def split: option.splits)
qed

subsection \<open>What a request does to the sessions map\<close>

lemma jb_sessions:
  "sessions (snd (join_broadcast sid roomId userId userType tc tn srv)) = sessions srv
   \<or> sessions (snd (join_broadcast sid roomId userId userType tc tn srv)) =
       map_set roomId (admit_instructor userId sid tn (session_at roomId tc srv)) (sessions srv)
   \<or> sessions (snd (join_broadcast sid roomId userId userType tc tn srv)) =
       map_set roomId (admit_student userId sid tn (session_at roomId tc srv)) (sessions srv)"
proof (cases "\<not> truthy roomId \<or> \<not> truthy userId
             \<or> userType \<notin> set [JStr ''instructor'', JStr ''student'']")
  case True
  then show ?thesis by (simp add: jb_invalid)
next
  case valid: False
  show ?thesis
  proof (cases "userType = JStr ''instructor''")
    case instr: True
    show ?thesis
    proof (cases "instructor_conflict (session_at roomId tc srv) sid")
      case True
      then obtain s where "map_get (sessions srv) roomId = Some s" "instructor_conflict s sid"
        by (auto simp: session_at_eq no_conflict_new split: option.splits)
      with valid instr show ?thesis by (simp add: jb_conflict)
    next
      case False
      with valid instr show ?thesis by (simp add: jb_instructor)
    qed
  next
    case False
    with valid have "userType = JStr ''student''" by simp
    with valid show ?thesis by (simp add: jb_student)
  qed
qed

lemma handle_sessions:
  "sessions (handle q srv) = sessions srv
   \<or> (\<exists>sid roomId userId tc tn.
        sessions (handle q srv) =
          map_set roomId (admit_instructor userId sid tn (session_at roomId tc srv)) (sessions srv)
      \<or> sessions (handle q srv) =
          map_set roomId (admit_student userId sid tn (session_at roomId tc srv)) (sessions srv))"
proof (cases q)
  case (JoinBroadcast sid roomId userId userType tc tn)
  with jb_sessions [of sid roomId userId userType tc tn srv] show ?thesis
    by (simp only: handle.simps) blast
next
  case (Disconnect sid)
  then show ?thesis by (simp add: disconnect_def)
next
  case LiveSessions
  then show ?thesis by (simp add: live_sessions_def)
qed

lemma session_ok_new: "session_ok (new_session tc)"
  by (simp add: session_ok_def new_session_def instructor_active_def)

lemma session_ok_admit_instructor: "session_ok s \<Longrightarrow> session_ok (admit_instructor u sid tn s)"
  by (simp add: session_ok_def admit_instructor_def instructor_active_def)

lemma session_ok_admit_student: "session_ok s \<Longrightarrow> session_ok (admit_student u sid tn s)"
  by (simp add: session_ok_def admit_student_def instructor_active_def)

lemma session_ok_at:
  assumes "server_ok srv"
  shows "session_ok (session_at roomId tc srv)"
proof (cases "map_get (sessions srv) roomId")
  case None
  then show ?thesis by (simp add: session_at_eq session_ok_new)
next
  case (Some s)
  then have "(roomId, s) \<in> set (sessions srv)" by (rule map_get_in_set)
  with assms have "session_ok s" by (auto simp: server_ok_def)
  with Some show ?thesis by (simp add: session_at_eq)
qed

lemma server_ok_map_set:
  "server_ok srv \<Longrightarrow> session_ok s \<Longrightarrow> sessions srv' = map_set r s (sessions srv)
     \<Longrightarrow> server_ok srv'"
  using set_map_set [of r s "sessions srv"] by (auto simp: server_ok_def)

lemma handle_ok:
  assumes "server_ok srv"
  shows "server_ok (handle q srv)"
proof -
  consider "sessions (handle q srv) = sessions srv"
    | s where "session_ok s" "\<exists>r. sessions (handle q srv) = map_set r s (sessions srv)"
    using handle_sessions [of q srv] assms
    by (metis session_ok_admit_instructor session_ok_admit_student session_ok_at)
  then show ?thesis
  proof cases
    case 1
    with assms show ?thesis by (simp add: server_ok_def)
  next
    case 2
    with assms show ?thesis by (auto intro: server_ok_map_set)
  qed
qed

lemma run_ok: "server_ok srv \<Longrightarrow> server_ok (run qs srv)"
  by (induction qs arbitrary: srv) (auto simp: handle_ok)

lemma initial_ok: "server_ok initial"
  by (simp add: server_ok_def initial_def)

lemma handle_startTime:
  assumes "startTime_of srv r = Some t"
  shows "startTime_of (handle q srv) r = Some t"
proof -
  from assms obtain s where s: "map_get (sessions srv) r = Some s" "startTime s = Some t"
    by (auto simp: startTime_of_def split: option.splits)
  have a: "startTime (admit_instructor u sid tn (session_at r tc srv)) = Some t" for u sid tn tc
    using s by (simp add: admit_instructor_def session_at_eq)
  have b: "startTime (admit_student u sid tn (session_at r tc srv)) = Some t" for u sid tn tc
    using s by (simp add: admit_student_def session_at_eq)
  from handle_sessions [of q srv] show ?thesis
    using s a b by (auto simp: startTime_of_def map_get_map_set)
qed

lemma run_startTime:
  "startTime_of srv r = Some t \<Longrightarrow> startTime_of (run qs srv) r = Some t"
  by (induction qs arbitrary: srv) (auto simp: handle_startTime)

subsection \<open>The scenarios, evaluated\<close>

lemma scenario1_eq:
  "scenario1 =
     \<lparr>sessions = [(JStr ''r1'',
        \<lparr>instructor =
           Some \<lparr>instr_id = JStr ''A'', instr_socketId = ''sockA'', instr_active = True\<rparr>,
         students = [], messages = [], isLive = True, startTime = Some 1001,
         createdAt = 1000\<rparr>)],
      rooms = {(JStr ''r1'', ''sockA'')}\<rparr>"
  by (simp add: scenario1_def join_broadcast_def initial_def get_or_create_def new_session_def
      instructor_conflict_def admit_instructor_def Let_def)

lemma scenario2_eq:
  "scenario2 =
     \<lparr>sessions = [(JStr ''r1'',
        \<lparr>instructor =
           Some \<lparr>instr_id = JStr ''A'', instr_socketId = ''sockA'', instr_active = True\<rparr>,
         students =
           [(JStr ''B'', \<lparr>stu_socketId = ''sockB'', stu_active = True, stu_joinedAt = 2001\<rparr>)],
         messages = [], isLive = True, startTime = Some 1001, createdAt = 1000\<rparr>)],
      rooms = {(JStr ''r1'', ''sockA''), (JStr ''r1'', ''sockB'')}\<rparr>"
  by (auto simp add: scenario2_def scenario1_eq join_broadcast_def get_or_create_def
      admit_student_def Let_def)

subsection \<open>Field by field\<close>

lemma admit_student_simps:
  "instructor (admit_student u sid tn s) = instructor s"
  "isLive (admit_student u sid tn s) = isLive s"
  "startTime (admit_student u sid tn s) = startTime s"
  "messages (admit_student u sid tn s) = messages s"
  "createdAt (admit_student u sid tn s) = createdAt s"
  "students (admit_student u sid tn s) =
     map_set u \<lparr>stu_socketId = sid, stu_active = True, stu_joinedAt = tn\<rparr> (students s)"
  "instructor_active (admit_student u sid tn s) = instructor_active s"
  by (simp_all add: admit_student_def instructor_active_def)

lemma admit_instructor_simps:
  "instructor (admit_instructor u sid tn s) =
     Some \<lparr>instr_id = u, instr_socketId = sid, instr_active = True\<rparr>"
  "isLive (admit_instructor u sid tn s) = True"
  "startTime (admit_instructor u sid tn s) =
     Some (case startTime s of Some t \<Rightarrow> t | None \<Rightarrow> tn)"
  "messages (admit_instructor u sid tn s) = messages s"
  "createdAt (admit_instructor u sid tn s) = createdAt s"
  "students (admit_instructor u sid tn s) = students s"
  "instructor_active (admit_instructor u sid tn s) = True"
  by (simp_all add: admit_instructor_def instructor_active_def split: option.splits)

lemma conflict_at:
  assumes "instructor_conflict (session_at roomId tc srv) sid"
  shows "\<exists>s. map_get (sessions srv) roomId = Some s \<and> instructor_conflict s sid"
  using assms by (auto simp: session_at_eq no_conflict_new split: option.splits)

lemma jb_rejected_events:
  assumes "rejects sid roomId userId userType tc srv"
  shows "\<exists>m. fst (join_broadcast sid roomId userId userType tc tn srv) =
           [Emit (ToSocket sid) (ErrorMsg m)]"
proof (cases "\<not> truthy roomId \<or> \<not> truthy userId
             \<or> userType \<notin> set [JStr ''instructor'', JStr ''student'']")
  case True
  then show ?thesis by (simp add: jb_invalid)
next
  case False
  with assms have i: "userType = JStr ''instructor''"
    and "instructor_conflict (session_at roomId tc srv) sid"
    by (auto simp: rejects_def)
  then obtain s where "map_get (sessions srv) roomId = Some s" "instructor_conflict s sid"
    using conflict_at by blast
  with False i show ?thesis by (simp add: jb_conflict)
qed

lemmas eval_defs = join_broadcast_def get_or_create_def new_session_def
      instructor_conflict_def admit_instructor_def admit_student_def Let_def
      participants_count_def map_size_def instructor_active_def session_at_def

lemma live_entry_of_eq:
  "live_entry_of (roomId, s) =
     (if isLive s \<and> instructor_active s
      then [\<lparr>le_id = roomId, le_startTime = startTime s,
             le_participants = map_size (students s) + 1,
             le_instructorId = (case instructor s of Some i \<Rightarrow> instr_id i | None \<Rightarrow> JUndefined)\<rparr>]
      else [])"
  by (simp add: instructor_active_def split: option.splits)

lemma live_entries_eq:
  "concat (map live_entry_of ss) =
     map (\<lambda>(roomId, s).
            \<lparr>le_id = roomId, le_startTime = startTime s,
             le_participants = map_size (students s) + 1,
             le_instructorId = (case instructor s of Some i \<Rightarrow> instr_id i | None \<Rightarrow> JUndefined)\<rparr>)
       (filter (\<lambda>(roomId, s). isLive s \<and> instructor_active s) ss)"
  by (induction ss) (auto simp: live_entry_of_eq simp del: live_entry_of.simps split: if_splits)

lemma map_set_not_Nil: "map_set k v m \<noteq> []"
  by (cases m) (auto split: if_splits)

subsection \<open>C1: a second instructor is turned away\<close>

text \<open>
  C1. An instructor request with valid parameters, on a session whose recorded instructor is
  active on another socket, is rejected: the only event is the error
  \<^verbatim>\<open>Another instructor is already active in this session.\<close>, sent to the requesting
  socket; the sessions map, and so every field of the session, is what it was; the
  requester is not in the room afterwards; nothing is sent to a room.
\<close>

theorem C1_instructor_conflict_rejected:
  assumes "truthy roomId" and "truthy userId"
    and "map_get (sessions srv) roomId = Some s"
    and "instructor s = Some i" and "instr_active i" and "instr_socketId i \<noteq> sid"
    and "join_broadcast sid roomId userId (JStr ''instructor'') tc tn srv = (evs, srv')"
  shows "evs = [Emit (ToSocket sid)
                  (ErrorMsg ''Another instructor is already active in this session.'')]
       \<and> sessions srv' = sessions srv
       \<and> map_get (sessions srv') roomId = Some s
       \<and> (roomId, sid) \<notin> rooms srv'
       \<and> filter is_room_wide evs = []"
proof -
  have "instructor_conflict s sid"
    using assms(4-6) by (simp add: instructor_conflict_def)
  from jb_conflict [OF assms(1,2,3) this] assms(3,7) show ?thesis
    by auto
qed

theorem C1_instructor_conflict_rejected_witness:
  "join_broadcast ''sockC'' (JStr ''r1'') (JStr ''C'') (JStr ''instructor'') 3000 3001 scenario2 =
     ([Emit (ToSocket ''sockC'')
         (ErrorMsg ''Another instructor is already active in this session.'')],
      \<lparr>sessions = sessions scenario2,
       rooms = {(JStr ''r1'', ''sockA''), (JStr ''r1'', ''sockB'')}\<rparr>)
   \<and> (JStr ''r1'', ''sockC'') \<notin> {(JStr ''r1'', ''sockA''), (JStr ''r1'', ''sockB'')}"
  using C1_instructor_conflict_rejected [of "JStr ''r1''" "JStr ''C''" scenario2
      "\<lparr>instructor =
           Some \<lparr>instr_id = JStr ''A'', instr_socketId = ''sockA'', instr_active = True\<rparr>,
         students =
           [(JStr ''B'', \<lparr>stu_socketId = ''sockB'', stu_active = True, stu_joinedAt = 2001\<rparr>)],
         messages = [], isLive = True, startTime = Some 1001, createdAt = 1000\<rparr>"
      "\<lparr>instr_id = JStr ''A'', instr_socketId = ''sockA'', instr_active = True\<rparr>"
      "''sockC''" 3000 3001
      "fst (join_broadcast ''sockC'' (JStr ''r1'') (JStr ''C'') (JStr ''instructor'') 3000 3001 scenario2)"
      "snd (join_broadcast ''sockC'' (JStr ''r1'') (JStr ''C'') (JStr ''instructor'') 3000 3001 scenario2)"]
  by (auto simp add: scenario2_eq join_broadcast_def get_or_create_def instructor_conflict_def Let_def)

subsection \<open>C2: connection loss\<close>

text \<open>
  The claim C2 expects a leave transition when the active instructor's connection is lost.
  In the first scenario instructor A is active on \<^verbatim>\<open>sockA\<close>; after that socket
  disconnects nothing is emitted and the session is still live with an active instructor.
\<close>

theorem C2_disconnect_counterexample:
  "map_get (sessions scenario1) (JStr ''r1'') =
     Some \<lparr>instructor =
             Some \<lparr>instr_id = JStr ''A'', instr_socketId = ''sockA'', instr_active = True\<rparr>,
           students = [], messages = [], isLive = True, startTime = Some 1001,
           createdAt = 1000\<rparr>
   \<and> fst (disconnect ''sockA'' scenario1) = []
   \<and> map_get (sessions (snd (disconnect ''sockA'' scenario1))) (JStr ''r1'') =
     Some \<lparr>instructor =
             Some \<lparr>instr_id = JStr ''A'', instr_socketId = ''sockA'', instr_active = True\<rparr>,
           students = [], messages = [], isLive = True, startTime = Some 1001,
           createdAt = 1000\<rparr>"
  by (simp add: scenario1_eq disconnect_def)

text \<open>
  C2, as the program behaves. When a connection is lost, the one of a session's active
  instructor included, no handler of the program runs: no notification is emitted, every
  session keeps all its fields (the instructor stays active, \<open>isLive\<close> stays as it was),
  and the start time of every room is retained.
\<close>

theorem C2_disconnect_runs_no_handler:
  "fst (disconnect sid srv) = []
   \<and> sessions (snd (disconnect sid srv)) = sessions srv
   \<and> startTime_of (snd (disconnect sid srv)) r = startTime_of srv r"
  by (simp add: disconnect_def startTime_of_def)

theorem C2_disconnect_runs_no_handler_witness:
  "fst (disconnect ''sockA'' scenario1) = []
   \<and> sessions (snd (disconnect ''sockA'' scenario1)) = sessions scenario1
   \<and> startTime_of (snd (disconnect ''sockA'' scenario1)) (JStr ''r1'') = Some 1001"
  using C2_disconnect_runs_no_handler [of "''sockA''" scenario1 "JStr ''r1''"]
  by (simp add: scenario1_eq startTime_of_def)

subsection \<open>C3: the start time is set once\<close>

text \<open>
  C3. An admitted instructor request leaves the room with the start time it had, or with the
  current time when it had none. A start time that is set is still the room's start time
  after any sequence of further requests (joins of either role, on any room, valid or not,
  connection losses and queries).
\<close>

theorem C3_startTime_set_once:
  "(truthy roomId \<and> truthy userId \<and> \<not> instructor_conflict (session_at roomId tc srv) sid \<longrightarrow>
      startTime_of (snd (join_broadcast sid roomId userId (JStr ''instructor'') tc tn srv)) roomId =
        Some (case startTime_of srv roomId of None \<Rightarrow> tn | Some t \<Rightarrow> t))
   \<and> (startTime_of srv r = Some t \<longrightarrow> startTime_of (run qs srv) r = Some t)"
proof (intro conjI impI)
  assume a: "truthy roomId \<and> truthy userId \<and> \<not> instructor_conflict (session_at roomId tc srv) sid"
  have "startTime (session_at roomId tc srv) = startTime_of srv roomId"
    by (simp add: session_at_eq startTime_of_def new_session_def split: option.splits)
  with a show "startTime_of (snd (join_broadcast sid roomId userId (JStr ''instructor'') tc tn srv)) roomId =
        Some (case startTime_of srv roomId of None \<Rightarrow> tn | Some t \<Rightarrow> t)"
    by (simp add: jb_instructor startTime_of_def [of "\<lparr>sessions = _, rooms = _\<rparr>"]
        map_get_map_set admit_instructor_simps)
next
  assume "startTime_of srv r = Some t"
  then show "startTime_of (run qs srv) r = Some t" by (rule run_startTime)
qed

theorem C3_startTime_set_once_witness:
  "startTime_of initial (JStr ''r1'') = None
   \<and> startTime_of scenario1 (JStr ''r1'') = Some 1001
   \<and> startTime_of
       (run [JoinBroadcast ''sockA'' (JStr ''r1'') (JStr ''A'') (JStr ''instructor'') 3000 3001,
             JoinBroadcast ''sockB'' (JStr ''r1'') (JStr ''B'') (JStr ''student'') 4000 4001,
             Disconnect ''sockA'',
             JoinBroadcast ''sockD'' (JStr ''r1'') (JStr ''D'') (JStr ''instructor'') 5000 5001]
          scenario1) (JStr ''r1'') = Some 1001"
  using C3_startTime_set_once [of "JStr ''r1''" "JStr ''A''" 1000 initial "''sockA''" 1001
      "JStr ''r1''" 1001 "[]"]
    C3_startTime_set_once [of "JStr ''r1''" "JStr ''A''" 1000 scenario1 "''sockA''" 1001
      "JStr ''r1''" 1001
      "[JoinBroadcast ''sockA'' (JStr ''r1'') (JStr ''A'') (JStr ''instructor'') 3000 3001,
        JoinBroadcast ''sockB'' (JStr ''r1'') (JStr ''B'') (JStr ''student'') 4000 4001,
        Disconnect ''sockA'',
        JoinBroadcast ''sockD'' (JStr ''r1'') (JStr ''D'') (JStr ''instructor'') 5000 5001]"]
  by (simp add: scenario1_def [symmetric] scenario1_eq startTime_of_def initial_def session_at_eq
      new_session_def instructor_conflict_def)

subsection \<open>C4: liveness follows the instructor\<close>

text \<open>
  C4. After any sequence of requests from the initial state, every session is live if and
  only if it has an instructor record and that record is active.
\<close>

theorem C4_isLive_iff_instructor_active:
  "\<forall>p \<in> set (sessions (run qs initial)).
     isLive (snd p) \<longleftrightarrow> (\<exists>i. instructor (snd p) = Some i \<and> instr_active i)"
proof
  fix p assume "p \<in> set (sessions (run qs initial))"
  with run_ok [OF initial_ok, of qs] have "session_ok (snd p)"
    by (simp add: server_ok_def)
  then show "isLive (snd p) \<longleftrightarrow> (\<exists>i. instructor (snd p) = Some i \<and> instr_active i)"
    by (auto simp: session_ok_def instructor_active_def split: option.splits)
qed

theorem C4_isLive_iff_instructor_active_witness:
  "sessions
     (run [JoinBroadcast ''sockA'' (JStr ''r1'') (JStr ''A'') (JStr ''instructor'') 1000 1001,
           JoinBroadcast ''sockB'' (JStr ''r1'') (JStr ''B'') (JStr ''student'') 2000 2001]
        initial) = sessions scenario2
   \<and> isLive (snd (hd (sessions scenario2)))
   \<and> instructor (snd (hd (sessions scenario2))) =
       Some \<lparr>instr_id = JStr ''A'', instr_socketId = ''sockA'', instr_active = True\<rparr>"
  using C4_isLive_iff_instructor_active
    [of "[JoinBroadcast ''sockA'' (JStr ''r1'') (JStr ''A'') (JStr ''instructor'') 1000 1001,
          JoinBroadcast ''sockB'' (JStr ''r1'') (JStr ''B'') (JStr ''student'') 2000 2001]"]
  by (simp add: scenario1_def [symmetric] scenario2_def [symmetric] scenario2_eq)

subsection \<open>C5: the participant count\<close>

text \<open>
  C5. An admitted request, of either role, emits exactly one \<^verbatim>\<open>participants-updated\<close>,
  as its last event, to the room, which the requester has joined; its count is the size of
  the students map of the session after the admission, plus one if the instructor is active.
  A rejected request emits none.
\<close>

theorem C5_participants_updated_count:
  assumes "join_broadcast sid roomId userId userType tc tn srv = (evs, srv')"
  shows "(\<not> rejects sid roomId userId userType tc srv \<longrightarrow>
            (\<exists>s'. map_get (sessions srv') roomId = Some s'
               \<and> filter is_participants_updated evs =
                   [Emit (ToRoom roomId)
                      (ParticipantsUpdated
                         (map_size (students s') + (if instructor_active s' then 1 else 0)))]
               \<and> last evs =
                   Emit (ToRoom roomId)
                     (ParticipantsUpdated
                        (map_size (students s') + (if instructor_active s' then 1 else 0)))
               \<and> (roomId, sid) \<in> rooms srv'))
       \<and> (rejects sid roomId userId userType tc srv \<longrightarrow>
            filter is_participants_updated evs = [])"
proof (intro conjI impI)
  assume "rejects sid roomId userId userType tc srv"
  from jb_rejected_events [OF this, of tn] assms
  show "filter is_participants_updated evs = []" by auto
next
  assume n: "\<not> rejects sid roomId userId userType tc srv"
  then have v: "truthy roomId" "truthy userId"
    and ty: "userType = JStr ''instructor'' \<or> userType = JStr ''student''"
    by (auto simp: rejects_def)
  let ?P = "\<lambda>s'. map_get (sessions srv') roomId = Some s'
               \<and> filter is_participants_updated evs =
                   [Emit (ToRoom roomId)
                      (ParticipantsUpdated
                         (map_size (students s') + (if instructor_active s' then 1 else 0)))]
               \<and> last evs =
                   Emit (ToRoom roomId)
                     (ParticipantsUpdated
                        (map_size (students s') + (if instructor_active s' then 1 else 0)))
               \<and> (roomId, sid) \<in> rooms srv'"
  from ty show "\<exists>s'. ?P s'"
  proof
    assume i: "userType = JStr ''instructor''"
    with n have "\<not> instructor_conflict (session_at roomId tc srv) sid"
      by (simp add: rejects_def)
    from jb_instructor [OF v this refl, where tn=tn] assms i
    have "?P (admit_instructor userId sid tn (session_at roomId tc srv))"
      by (auto simp: map_get_map_set participants_count_def)
    then show ?thesis ..
  next
    assume st: "userType = JStr ''student''"
    from jb_student [OF v refl, where sid=sid and tn=tn and tc=tc and srv=srv] assms st
    have "?P (admit_student userId sid tn (session_at roomId tc srv))"
      by (auto simp: map_get_map_set participants_count_def split: option.splits)
    then show ?thesis ..
  qed
qed

theorem C5_participants_updated_count_witness:
  "\<not> rejects ''sockB'' (JStr ''r1'') (JStr ''B'') (JStr ''student'') 2000 scenario1
   \<and> last (fst (join_broadcast ''sockB'' (JStr ''r1'') (JStr ''B'') (JStr ''student'')
                  2000 2001 scenario1)) =
       Emit (ToRoom (JStr ''r1'')) (ParticipantsUpdated 2)
   \<and> rejects ''sockC'' (JStr ''r1'') (JStr ''C'') (JStr ''instructor'') 3000 scenario2
   \<and> filter is_participants_updated
        (fst (join_broadcast ''sockC'' (JStr ''r1'') (JStr ''C'') (JStr ''instructor'')
                3000 3001 scenario2)) = []"
  using C5_participants_updated_count [of "''sockB''" "JStr ''r1''" "JStr ''B''"
      "JStr ''student''" 2000 2001 scenario1
      "fst (join_broadcast ''sockB'' (JStr ''r1'') (JStr ''B'') (JStr ''student'')
                  2000 2001 scenario1)"
      "snd (join_broadcast ''sockB'' (JStr ''r1'') (JStr ''B'') (JStr ''student'')
                  2000 2001 scenario1)"]
    C5_participants_updated_count [of "''sockC''" "JStr ''r1''" "JStr ''C''"
      "JStr ''instructor''" 3000 3001 scenario2
      "fst (join_broadcast ''sockC'' (JStr ''r1'') (JStr ''C'') (JStr ''instructor'')
                3000 3001 scenario2)"
      "snd (join_broadcast ''sockC'' (JStr ''r1'') (JStr ''C'') (JStr ''instructor'')
                3000 3001 scenario2)"]
  by (simp add: rejects_def scenario1_eq scenario2_eq eval_defs)

subsection \<open>C6: invalid parameters\<close>

text \<open>
  The claim C6 gives the error text as \<^verbatim>\<open>Invalid parameters.\<close>; a student request with
  an empty identity is answered with another text.
\<close>

theorem C6_invalid_message_counterexample:
  "\<not> truthy (JStr '''')
   \<and> fst (join_broadcast ''sockX'' (JStr ''r9'') (JStr '''') (JStr ''student'') 1 2 initial) \<noteq>
       [Emit (ToSocket ''sockX'') (ErrorMsg ''Invalid parameters.'')]"
  by (simp add: join_broadcast_def)

text \<open>
  C6, as the program behaves. A request with a falsy room, a falsy identity or a role that
  is neither \<^verbatim>\<open>instructor\<close> nor \<^verbatim>\<open>student\<close> emits one event, the error
  \<^verbatim>\<open>Invalid join parameters.\<close> to the requesting socket, and leaves the whole state as
  it was; a room that had no session has none afterwards.
\<close>

theorem C6_invalid_parameters_rejected:
  assumes "\<not> truthy roomId \<or> \<not> truthy userId
             \<or> userType \<notin> set [JStr ''instructor'', JStr ''student'']"
    and "join_broadcast sid roomId userId userType tc tn srv = (evs, srv')"
  shows "evs = [Emit (ToSocket sid) (ErrorMsg ''Invalid join parameters.'')]
       \<and> srv' = srv
       \<and> map_get (sessions srv') roomId = map_get (sessions srv) roomId"
  using assms by (auto simp: join_broadcast_def)

theorem C6_invalid_parameters_rejected_witness:
  "join_broadcast ''sockX'' (JStr ''r9'') (JStr '''') (JStr ''student'') 1 2 initial =
     ([Emit (ToSocket ''sockX'') (ErrorMsg ''Invalid join parameters.'')], initial)
   \<and> map_get (sessions initial) (JStr ''r9'') = None"
  using C6_invalid_parameters_rejected [of "JStr ''r9''" "JStr ''''" "JStr ''student''"
      "''sockX''" 1 2 initial
      "fst (join_broadcast ''sockX'' (JStr ''r9'') (JStr '''') (JStr ''student'') 1 2 initial)"
      "snd (join_broadcast ''sockX'' (JStr ''r9'') (JStr '''') (JStr ''student'') 1 2 initial)"]
  by (simp add: initial_def prod_eq_iff)

subsection \<open>C7: students are always admitted\<close>

text \<open>
  C7. A student request with valid parameters is admitted, whatever the session: no error is
  emitted, the requester is in the room, and the session stored for the room afterwards
  holds for that identity the requesting socket, \<open>active = true\<close> and the current time.
  Measured against the session that the map stored for the room before the request, every
  other identity keeps its entry, the size grows by one only when the identity is new, and
  the instructor record, \<open>isLive\<close>, \<open>startTime\<close>, the messages and \<open>createdAt\<close> are
  the same. When the map stored no session for the room, the new session has this student
  alone, no instructor, is not live and has no start time. The sessions of all other rooms
  are untouched.
\<close>

theorem C7_student_always_admitted:
  assumes "truthy roomId" and "truthy userId"
    and "join_broadcast sid roomId userId (JStr ''student'') tc tn srv = (evs, srv')"
  shows "\<exists>s'. map_get (sessions srv') roomId = Some s'
       \<and> map_get (students s') userId =
           Some \<lparr>stu_socketId = sid, stu_active = True, stu_joinedAt = tn\<rparr>
       \<and> filter is_error evs = []
       \<and> (roomId, sid) \<in> rooms srv'
       \<and> (\<forall>r. r \<noteq> roomId \<longrightarrow> map_get (sessions srv') r = map_get (sessions srv) r)
       \<and> (\<forall>s. map_get (sessions srv) roomId = Some s \<longrightarrow>
             (\<forall>u. u \<noteq> userId \<longrightarrow> map_get (students s') u = map_get (students s) u)
             \<and> map_size (students s') =
                 (if map_get (students s) userId = None
                  then Suc (map_size (students s)) else map_size (students s))
             \<and> instructor s' = instructor s
             \<and> isLive s' = isLive s
             \<and> startTime s' = startTime s
             \<and> messages s' = messages s
             \<and> createdAt s' = createdAt s)
       \<and> (map_get (sessions srv) roomId = None \<longrightarrow>
             (\<forall>u. u \<noteq> userId \<longrightarrow> map_get (students s') u = None)
             \<and> map_size (students s') = 1
             \<and> instructor s' = None
             \<and> \<not> isLive s'
             \<and> startTime s' = None
             \<and> messages s' = []
             \<and> createdAt s' = tc)"
proof -
  let ?s' = "admit_student userId sid tn (session_at roomId tc srv)"
  from jb_student [OF assms(1,2) refl, where sid=sid and tn=tn and tc=tc and srv=srv] assms(3)
  have evs: "filter is_error evs = []"
    and srv': "sessions srv' = map_set roomId ?s' (sessions srv)" "(roomId, sid) \<in> rooms srv'"
    by (auto split: option.splits)
  have known: "session_at roomId tc srv = s" if "map_get (sessions srv) roomId = Some s" for s
    using that by (simp add: session_at_eq)
  have fresh: "session_at roomId tc srv = new_session tc" if "map_get (sessions srv) roomId = None"
    using that by (simp add: session_at_eq)
  show ?thesis
  proof (rule exI [of _ ?s'], intro conjI allI impI)
    fix s assume "map_get (sessions srv) roomId = Some s"
    note k = known [OF this]
    show "map_size (students ?s') =
                 (if map_get (students s) userId = None
                  then Suc (map_size (students s)) else map_size (students s))"
      by (simp add: k admit_student_simps map_size_def length_map_set)
    show "instructor ?s' = instructor s" "isLive ?s' = isLive s" "startTime ?s' = startTime s"
      "messages ?s' = messages s" "createdAt ?s' = createdAt s"
      by (simp_all add: k admit_student_simps)
    fix u assume "u \<noteq> userId"
    then show "map_get (students ?s') u = map_get (students s) u"
      by (simp add: k admit_student_simps map_get_map_set)
  next
    assume "map_get (sessions srv) roomId = None"
    note f = fresh [OF this]
    show "map_size (students ?s') = 1" "instructor ?s' = None" "\<not> isLive ?s'"
      "startTime ?s' = None" "messages ?s' = []" "createdAt ?s' = tc"
      by (simp_all add: f admit_student_simps map_size_def new_session_def)
    fix u assume "u \<noteq> userId"
    then show "map_get (students ?s') u = None"
      by (simp add: f admit_student_simps new_session_def)
  qed (simp_all add: evs srv' map_get_map_set admit_student_simps)
qed

theorem C7_student_always_admitted_witness:
  "map_get (sessions scenario1) (JStr ''r1'') =
     Some \<lparr>instructor =
             Some \<lparr>instr_id = JStr ''A'', instr_socketId = ''sockA'', instr_active = True\<rparr>,
           students = [], messages = [], isLive = True, startTime = Some 1001,
           createdAt = 1000\<rparr>
   \<and> map_get (sessions scenario2) (JStr ''r1'') =
     Some \<lparr>instructor =
             Some \<lparr>instr_id = JStr ''A'', instr_socketId = ''sockA'', instr_active = True\<rparr>,
           students =
             [(JStr ''B'', \<lparr>stu_socketId = ''sockB'', stu_active = True, stu_joinedAt = 2001\<rparr>)],
           messages = [], isLive = True, startTime = Some 1001, createdAt = 1000\<rparr>
   \<and> (JStr ''r1'', ''sockB'') \<in> rooms scenario2
   \<and> map_get (sessions scenario2) (JStr ''r2'') = None
   \<and> map_get
       (sessions (snd (join_broadcast ''sockE'' (JStr ''r2'') (JStr ''E'') (JStr ''student'')
                         6000 6001 scenario2))) (JStr ''r2'') =
     Some \<lparr>instructor = None,
           students =
             [(JStr ''E'', \<lparr>stu_socketId = ''sockE'', stu_active = True, stu_joinedAt = 6001\<rparr>)],
           messages = [], isLive = False, startTime = None, createdAt = 6000\<rparr>
   \<and> map_get
       (sessions (snd (join_broadcast ''sockE'' (JStr ''r2'') (JStr ''E'') (JStr ''student'')
                         6000 6001 scenario2))) (JStr ''r1'') =
     map_get (sessions scenario2) (JStr ''r1'')"
  using C7_student_always_admitted [of "JStr ''r1''" "JStr ''B''" "''sockB''" 2000 2001 scenario1
      "fst (join_broadcast ''sockB'' (JStr ''r1'') (JStr ''B'') (JStr ''student'')
                  2000 2001 scenario1)" scenario2]
    C7_student_always_admitted [of "JStr ''r2''" "JStr ''E''" "''sockE''" 6000 6001 scenario2
      "fst (join_broadcast ''sockE'' (JStr ''r2'') (JStr ''E'') (JStr ''student'')
                  6000 6001 scenario2)"
      "snd (join_broadcast ''sockE'' (JStr ''r2'') (JStr ''E'') (JStr ''student'')
                  6000 6001 scenario2)"]
  by (simp add: scenario2_def [symmetric])
     (simp add: scenario2_eq scenario1_eq eval_defs)

subsection \<open>C8: the live-sessions query\<close>

text \<open>
  C8. The query answers with exactly the sessions that are live with an active instructor,
  in the order of the map, each with its room, its start time, \<open>students.size + 1\<close>
  participants and the instructor's identity; it leaves the state as it was.
\<close>

theorem C8_live_sessions_query:
  "live_sessions srv = (\<lparr>success = True, resp_sessions = listActive_spec srv\<rparr>, srv)"
  by (simp add: live_sessions_def listActive_spec_def live_entries_eq)

theorem C8_live_sessions_query_witness:
  "live_sessions scenario2 =
     (\<lparr>success = True,
       resp_sessions =
         [\<lparr>le_id = JStr ''r1'', le_startTime = Some 1001, le_participants = 2,
           le_instructorId = JStr ''A''\<rparr>]\<rparr>,
      scenario2)"
  using C8_live_sessions_query [of scenario2]
  by (simp add: listActive_spec_def scenario2_eq instructor_active_def map_size_def)

subsection \<open>C9: a student in a room without instructor\<close>

text \<open>
  C9. In a state reached from the initial one, a student request with valid parameters for a
  room whose session has no instructor record (a room without session included) is
  admitted: the session exists afterwards and holds the student; the events are a
  \<^verbatim>\<open>session-info\<close> to the requesting socket alone, with \<open>isLive = false\<close>,
  \<open>startTime = null\<close>, \<open>instructorActive = false\<close> and \<open>totalStudents\<close> the size of
  the students map that counts the student, and the \<^verbatim>\<open>participants-updated\<close> of the
  room; no \<^verbatim>\<open>student-joined\<close> is emitted.
\<close>

theorem C9_student_joins_room_without_instructor:
  assumes "truthy roomId" and "truthy userId"
    and "srv = run qs initial"
    and "instructor (session_at roomId tc srv) = None"
    and "join_broadcast sid roomId userId (JStr ''student'') tc tn srv = (evs, srv')"
  shows "\<exists>s'. map_get (sessions srv') roomId = Some s'
       \<and> map_get (students s') userId =
           Some \<lparr>stu_socketId = sid, stu_active = True, stu_joinedAt = tn\<rparr>
       \<and> 0 < map_size (students s')
       \<and> evs = [Emit (ToSocket sid)
                   (SessionInfo False None (messages s') (map_size (students s')) False),
                 Emit (ToRoom roomId) (ParticipantsUpdated (map_size (students s')))]
       \<and> filter is_session_info evs =
           [Emit (ToSocket sid)
              (SessionInfo False None (messages s') (map_size (students s')) False)]
       \<and> filter is_student_joined evs = []"
proof -
  let ?s = "session_at roomId tc srv"
  let ?s' = "admit_student userId sid tn ?s"
  have "server_ok srv"
    unfolding assms(3) by (rule run_ok [OF initial_ok])
  then have "session_ok ?s" by (rule session_ok_at)
  with assms(4) have s: "\<not> isLive ?s" "startTime ?s = None" "\<not> instructor_active ?s"
    by (simp_all add: session_ok_def instructor_active_def)
  from jb_student [OF assms(1,2) refl, where sid=sid and tn=tn and tc=tc and srv=srv]
    assms(4,5) s
  have evs: "evs = [Emit (ToSocket sid)
                   (SessionInfo False None (messages ?s') (map_size (students ?s')) False),
                 Emit (ToRoom roomId) (ParticipantsUpdated (map_size (students ?s')))]"
    and srv': "map_get (sessions srv') roomId = Some ?s'"
    by (auto simp: map_get_map_set admit_student_simps participants_count_def)
  have "0 < map_size (students ?s')"
    by (simp add: admit_student_simps map_size_def map_set_not_Nil)
  then show ?thesis
    by (intro exI [of _ ?s']) (simp add: evs srv' admit_student_simps map_get_map_set)
qed

theorem C9_student_joins_room_without_instructor_witness:
  "instructor (session_at (JStr ''r2'') 6000 scenario2) = None
   \<and> join_broadcast ''sockE'' (JStr ''r2'') (JStr ''E'') (JStr ''student'') 6000 6001 scenario2 =
       ([Emit (ToSocket ''sockE'') (SessionInfo False None [] 1 False),
         Emit (ToRoom (JStr ''r2'')) (ParticipantsUpdated 1)],
        \<lparr>sessions = sessions scenario2 @
           [(JStr ''r2'',
             \<lparr>instructor = None,
              students =
                [(JStr ''E'',
                  \<lparr>stu_socketId = ''sockE'', stu_active = True, stu_joinedAt = 6001\<rparr>)],
              messages = [], isLive = False, startTime = None, createdAt = 6000\<rparr>)],
         rooms = insert (JStr ''r2'', ''sockE'') (rooms scenario2)\<rparr>)"
  using C9_student_joins_room_without_instructor [of "JStr ''r2''" "JStr ''E''" scenario2
      "[JoinBroadcast ''sockA'' (JStr ''r1'') (JStr ''A'') (JStr ''instructor'') 1000 1001,
        JoinBroadcast ''sockB'' (JStr ''r1'') (JStr ''B'') (JStr ''student'') 2000 2001]"
      6000 "''sockE''" 6001
      "fst (join_broadcast ''sockE'' (JStr ''r2'') (JStr ''E'') (JStr ''student'') 6000 6001 scenario2)"
      "snd (join_broadcast ''sockE'' (JStr ''r2'') (JStr ''E'') (JStr ''student'') 6000 6001 scenario2)"]
  by (simp add: scenario1_def [symmetric] scenario2_def [symmetric])
     (simp add: scenario2_eq eval_defs)

subsection \<open>C10: take-over is decided by the socket\<close>

text \<open>
  C10. On a session with an active instructor, an instructor request with valid parameters
  from the socket of that instructor is admitted whatever identity it carries, and the
  session's instructor then has the requester's identity; from any other socket it is
  rejected whatever identity it carries. The identities are never compared.
\<close>

theorem C10_takeover_keyed_on_connection:
  assumes "truthy roomId" and "truthy userId"
    and "map_get (sessions srv) roomId = Some s"
    and "instructor s = Some i" and "instr_active i"
    and "join_broadcast sid roomId userId (JStr ''instructor'') tc tn srv = (evs, srv')"
  shows "(instr_socketId i = sid \<longrightarrow>
            filter is_error evs = []
            \<and> (\<exists>s'. map_get (sessions srv') roomId = Some s'
                 \<and> instructor s' =
                     Some \<lparr>instr_id = userId, instr_socketId = sid, instr_active = True\<rparr>))
       \<and> (instr_socketId i \<noteq> sid \<longrightarrow>
            evs = [Emit (ToSocket sid)
                     (ErrorMsg ''Another instructor is already active in this session.'')]
            \<and> map_get (sessions srv') roomId = Some s)"
proof (intro conjI impI)
  assume same: "instr_socketId i = sid"
  have at: "session_at roomId tc srv = s"
    using assms(3) by (simp add: session_at_eq)
  have "\<not> instructor_conflict (session_at roomId tc srv) sid"
    using assms(4) same by (simp add: at instructor_conflict_def)
  from jb_instructor [OF assms(1,2) this refl, where tn=tn] assms(6)
  have "evs = [Emit (ToRoom roomId)
                 (BroadcastStarted userId (startTime (admit_instructor userId sid tn s))),
               Emit (ToRoom roomId)
                 (ParticipantsUpdated (participants_count (admit_instructor userId sid tn s)))]"
    and "map_get (sessions srv') roomId = Some (admit_instructor userId sid tn s)"
    by (auto simp: at map_get_map_set)
  then show "filter is_error evs = []"
    and "\<exists>s'. map_get (sessions srv') roomId = Some s'
                 \<and> instructor s' =
                     Some \<lparr>instr_id = userId, instr_socketId = sid, instr_active = True\<rparr>"
    by (simp_all add: admit_instructor_simps)
next
  assume "instr_socketId i \<noteq> sid"
  with assms(4,5) have "instructor_conflict s sid"
    by (simp add: instructor_conflict_def)
  from jb_conflict [OF assms(1,2,3) this] assms(3,6)
  show "evs = [Emit (ToSocket sid)
                     (ErrorMsg ''Another instructor is already active in this session.'')]"
    and "map_get (sessions srv') roomId = Some s"
    by auto
qed

theorem C10_takeover_keyed_on_connection_witness:
  "map_get (sessions scenario1) (JStr ''r1'') =
     Some \<lparr>instructor =
             Some \<lparr>instr_id = JStr ''A'', instr_socketId = ''sockA'', instr_active = True\<rparr>,
           students = [], messages = [], isLive = True, startTime = Some 1001,
           createdAt = 1000\<rparr>
   \<and> map_get
       (sessions (snd (join_broadcast ''sockA'' (JStr ''r1'') (JStr ''Z'') (JStr ''instructor'')
                         7000 7001 scenario1))) (JStr ''r1'') =
     Some \<lparr>instructor =
             Some \<lparr>instr_id = JStr ''Z'', instr_socketId = ''sockA'', instr_active = True\<rparr>,
           students = [], messages = [], isLive = True, startTime = Some 1001,
           createdAt = 1000\<rparr>
   \<and> fst (join_broadcast ''sockC'' (JStr ''r1'') (JStr ''A'') (JStr ''instructor'')
            7000 7001 scenario1) =
       [Emit (ToSocket ''sockC'')
          (ErrorMsg ''Another instructor is already active in this session.'')]"
  using C10_takeover_keyed_on_connection [of "JStr ''r1''" "JStr ''Z''" scenario1
      "\<lparr>instructor =
             Some \<lparr>instr_id = JStr ''A'', instr_socketId = ''sockA'', instr_active = True\<rparr>,
           students = [], messages = [], isLive = True, startTime = Some 1001,
           createdAt = 1000\<rparr>"
      "\<lparr>instr_id = JStr ''A'', instr_socketId = ''sockA'', instr_active = True\<rparr>"
      "''sockA''" 7000 7001
      "fst (join_broadcast ''sockA'' (JStr ''r1'') (JStr ''Z'') (JStr ''instructor'')
                         7000 7001 scenario1)"
      "snd (join_broadcast ''sockA'' (JStr ''r1'') (JStr ''Z'') (JStr ''instructor'')
                         7000 7001 scenario1)"]
    C10_takeover_keyed_on_connection [of "JStr ''r1''" "JStr ''A''" scenario1
      "\<lparr>instructor =
             Some \<lparr>instr_id = JStr ''A'', instr_socketId = ''sockA'', instr_active = True\<rparr>,
           students = [], messages = [], isLive = True, startTime = Some 1001,
           createdAt = 1000\<rparr>"
      "\<lparr>instr_id = JStr ''A'', instr_socketId = ''sockA'', instr_active = True\<rparr>"
      "''sockC''" 7000 7001
      "fst (join_broadcast ''sockC'' (JStr ''r1'') (JStr ''A'') (JStr ''instructor'')
                         7000 7001 scenario1)"
      "snd (join_broadcast ''sockC'' (JStr ''r1'') (JStr ''A'') (JStr ''instructor'')
                         7000 7001 scenario1)"]
  by (simp add: scenario1_eq eval_defs)

end
